theory Spec2Isabelle
  imports Complex_Main "HOL-Library.Word"
begin

section \<open>Voice activity detection (src/core/asr\_api.py, class VADProcessor)\<close>

text \<open>
  Audio chunks are numpy arrays of normalised samples; they are modelled as lists of reals.
  Python integers are unbounded, so every counter and every sample count is an \<open>int\<close>.

  The detector branches on two floating-point computations, whose rounding is not defined
  by the source. They are taken as given, so that every property below holds for whatever
  numpy and Python compute:
  \<^item> \<open>mean_abs\<close> is the value of \<open>np.mean(np.abs(audio_chunk))\<close>, a float32, and
    \<open>above e t\<close> is the outcome of the comparison \<open>energy > self.threshold\<close> on it;
  \<^item> \<open>wide_quotient p\<close> is \<open>int(p / 1000)\<close> for an integer \<open>p\<close> beyond \<open>2^53\<close> in
    magnitude, where the float quotient is rounded before it is truncated.
  The all-zero test compares samples and is exact. The running statistics and the duration
  metrics, which no branch reads, are kept as exact reals.
\<close>

record numerics =
  mean_abs :: "real list \<Rightarrow> real"
  above :: "real \<Rightarrow> real \<Rightarrow> bool"
  wide_quotient :: "int \<Rightarrow> int"

record debug_stats =
  speech_segments :: int
  silence_segments :: int
  utterance_ends :: int
  max_speech_energy :: real
  min_speech_energy :: real
  avg_speech_energy :: real
  speech_energy_samples :: int

record VADProcessor =
  threshold :: real
  sample_rate :: int
  speech_pad_samples :: int
  min_speech_samples :: int
  min_silence_samples :: int
  max_silence_samples :: int
  is_speech :: bool
  silence_count :: int
  speech_count :: int
  padding_count :: int
  in_padding :: bool
  stats :: debug_stats

text \<open>The exact quotient truncated towards zero.\<close>

definition truncated_quotient :: "int \<Rightarrow> int" where
  "truncated_quotient p = (if 0 \<le> p then p div 1000 else - ((- p) div 1000))"

text \<open>\<open>int(ms * sample_rate / 1000)\<close>. The product is an exact integer. Up to \<open>2^53\<close> in
  magnitude it is a float, its quotient by 1000 is below \<open>2^44\<close> and is rounded by less than
  one thousandth, so the truncation is that of the exact quotient.\<close>

definition ms_to_samples :: "numerics \<Rightarrow> int \<Rightarrow> int \<Rightarrow> int" where
  "ms_to_samples fp ms rate =
     (let p = ms * rate
      in if \<bar>p\<bar> \<le> 9007199254740992 then truncated_quotient p else wide_quotient fp p)"

definition fresh_debug_stats :: debug_stats where
  "fresh_debug_stats =
     \<lparr> speech_segments = 0, silence_segments = 0, utterance_ends = 0,
       max_speech_energy = 0, min_speech_energy = 1, avg_speech_energy = 0,
       speech_energy_samples = 0 \<rparr>"

text \<open>\<open>VADProcessor.__init__\<close>; the arguments are in the order of the source.\<close>

definition VADProcessor_init ::
  "numerics \<Rightarrow> real \<Rightarrow> int \<Rightarrow> int \<Rightarrow> int \<Rightarrow> int \<Rightarrow> int \<Rightarrow> VADProcessor" where
  "VADProcessor_init fp thr speech_pad_ms min_speech_duration_ms min_silence_duration_ms
       rate max_silence_duration_ms =
     \<lparr> threshold = thr,
       sample_rate = rate,
       speech_pad_samples = ms_to_samples fp speech_pad_ms rate,
       min_speech_samples = ms_to_samples fp min_speech_duration_ms rate,
       min_silence_samples = ms_to_samples fp min_silence_duration_ms rate,
       max_silence_samples = ms_to_samples fp max_silence_duration_ms rate,
       is_speech = False,
       silence_count = 0,
       speech_count = 0,
       padding_count = 0,
       in_padding = False,
       stats = fresh_debug_stats \<rparr>"

text \<open>\<open>np.all(audio_chunk == 0)\<close>, and the classification of a chunk: the all-zero test
  comes first, so on the empty chunk (whose mean is NaN) the energy is never compared.\<close>

definition all_zero :: "real list \<Rightarrow> bool" where
  "all_zero audio_chunk = list_all (\<lambda>x. x = 0) audio_chunk"

definition current_is_speech :: "numerics \<Rightarrow> VADProcessor \<Rightarrow> real list \<Rightarrow> bool" where
  "current_is_speech fp v audio_chunk =
     (if all_zero audio_chunk then False
      else above fp (mean_abs fp audio_chunk) (threshold v))"

definition update_energy_stats :: "real \<Rightarrow> bool \<Rightarrow> debug_stats \<Rightarrow> debug_stats" where
  "update_energy_stats e sp d =
     (if sp then
        (let n = speech_energy_samples d + 1 in
         d \<lparr> speech_energy_samples := n,
             avg_speech_energy := (avg_speech_energy d * real_of_int (n - 1) + e) / real_of_int n,
             max_speech_energy := max (max_speech_energy d) e,
             min_speech_energy := min (min_speech_energy d) e \<rparr>)
      else d)"

text \<open>The five assignments that close an utterance (the same in both ending branches).\<close>

definition end_utterance :: "VADProcessor \<Rightarrow> VADProcessor" where
  "end_utterance v =
     v \<lparr> is_speech := False, speech_count := 0, silence_count := 0, padding_count := 0,
         in_padding := False,
         stats := (stats v) \<lparr> utterance_ends := utterance_ends (stats v) + 1 \<rparr> \<rparr>"

text \<open>\<open>VADProcessor.process\<close>: the new detector state and the returned pair
  \<open>(is_speech, utterance_end)\<close>.\<close>

definition process ::
  "numerics \<Rightarrow> VADProcessor \<Rightarrow> real list \<Rightarrow> VADProcessor \<times> (bool \<times> bool)" where
  "process fp v0 audio_chunk =
     (let e = mean_abs fp audio_chunk;
          cur = current_is_speech fp v0 audio_chunk;
          n = int (length audio_chunk);
          v1 = v0 \<lparr> stats := update_energy_stats e cur (stats v0) \<rparr>
      in
      if cur then
        (let v2 = v1 \<lparr> stats := (stats v1) \<lparr> speech_segments := speech_segments (stats v1) + 1 \<rparr> \<rparr>;
             v3 = v2 \<lparr> silence_count := 0 \<rparr>;
             v4 = v3 \<lparr> speech_count := speech_count v3 + n \<rparr>;
             v5 = (if speech_count v4 \<ge> min_speech_samples v4 then v4 \<lparr> is_speech := True \<rparr> else v4);
             v6 = v5 \<lparr> in_padding := False, padding_count := 0 \<rparr>
         in (v6, (is_speech v6, False)))
      else
        (let v2 = v1 \<lparr> stats := (stats v1) \<lparr> silence_segments := silence_segments (stats v1) + 1 \<rparr> \<rparr>;
             v3 = v2 \<lparr> silence_count := silence_count v2 + n \<rparr>
         in
         if is_speech v3 then
           (let v4 = (if \<not> in_padding v3 then v3 \<lparr> in_padding := True, padding_count := 0 \<rparr> else v3)
            in
            if in_padding v4 then
              (let v5 = v4 \<lparr> padding_count := padding_count v4 + n \<rparr>
               in
               if padding_count v5 \<ge> speech_pad_samples v5 \<and> silence_count v5 \<ge> min_silence_samples v5
               then (end_utterance v5, (False, True))
               else if silence_count v5 \<ge> max_silence_samples v5
               then (end_utterance v5, (False, True))
               else (v5, (is_speech v5, False)))
            else (v4, (is_speech v4, False)))
         else (v3, (is_speech v3, False))))"

text \<open>Feeding a sequence of chunks to one detector, collecting what each call returns.\<close>

fun process_all :: "numerics \<Rightarrow> VADProcessor \<Rightarrow> real list list \<Rightarrow> (bool \<times> bool) list" where
  "process_all fp v [] = []"
| "process_all fp v (c # cs) = (let (v', r) = process fp v c in r # process_all fp v' cs)"

text \<open>\<open>VADProcessor.reset\<close>.\<close>

definition VADProcessor_reset :: "VADProcessor \<Rightarrow> VADProcessor" where
  "VADProcessor_reset v =
     v \<lparr> is_speech := False, silence_count := 0, speech_count := 0, padding_count := 0,
         in_padding := False, stats := fresh_debug_stats \<rparr>"

text \<open>The arithmetic without rounding, for concrete runs: the exact mean of the absolute
  amplitudes, the comparison of reals and the exact quotient. It agrees with numpy wherever
  the float32 mean is exact, as on a chunk of zeros or of equal samples \<open>1/2\<close>.\<close>

definition energy :: "real list \<Rightarrow> real" where
  "energy audio_chunk = sum_list (map abs audio_chunk) / real (length audio_chunk)"

definition exceeds :: "real \<Rightarrow> real \<Rightarrow> bool" where
  "exceeds e t = (t < e)"

definition unrounded :: numerics where
  "unrounded = \<lparr> mean_abs = energy, above = exceeds, wide_quotient = truncated_quotient \<rparr>"

section \<open>Strings\<close>

text \<open>
  A Python \<open>str\<close> is modelled as a \<open>string\<close> whose characters are the code points
  below 256. \<open>py_isspace\<close> is \<open>str.isspace\<close> on one such character (the class that
  \<open>str.strip()\<close> removes and that \<open>\s\<close> matches in a \<open>str\<close> pattern): TAB to CR,
  FS to US, SPACE, NEL and NBSP.
\<close>

definition py_isspace :: "char \<Rightarrow> bool" where
  "py_isspace c =
     (let n = (of_char c :: nat)
      in (9 \<le> n \<and> n \<le> 13) \<or> (28 \<le> n \<and> n \<le> 32) \<or> n = 133 \<or> n = 160)"

definition py_strip :: "string \<Rightarrow> string" where
  "py_strip s = rev (dropWhile py_isspace (rev (dropWhile py_isspace s)))"

section \<open>Stream sessions (class StreamState)\<close>

text \<open>The optional \<open>vad_config\<close> dictionary of the constructor: each key may be absent.\<close>

record vad_config =
  cfg_threshold :: "real option"
  cfg_speech_pad_ms :: "int option"
  cfg_min_speech_duration_ms :: "int option"
  cfg_min_silence_duration_ms :: "int option"
  cfg_max_silence_duration_ms :: "int option"

definition empty_vad_config :: vad_config where
  "empty_vad_config =
     \<lparr> cfg_threshold = None, cfg_speech_pad_ms = None, cfg_min_speech_duration_ms = None,
       cfg_min_silence_duration_ms = None, cfg_max_silence_duration_ms = None \<rparr>"

text \<open>\<open>d.get(key, default)\<close>.\<close>

definition get_default :: "'a option \<Rightarrow> 'a \<Rightarrow> 'a" where
  "get_default x d = (case x of None \<Rightarrow> d | Some y \<Rightarrow> y)"

record StreamState =
  stream_id :: string
  session_id :: string
  vad :: VADProcessor
  audio_buffer :: "real list list"
  stream_is_speech :: bool
  last_update :: real
  intermediate_transcript :: string
  final_transcript :: string
  completed_utterances :: "string list"
  is_active :: bool
  speech_duration_seconds :: real
  total_audio_duration_seconds :: real
  utterance_count :: int
  last_utterance_time :: "real option"
  created_at :: real
  last_utterance_ended_at :: "real option"

text \<open>\<open>StreamState.__init__\<close>. What the constructor draws from outside is a parameter:
  \<open>uuid\<close> is the value of \<open>str(uuid.uuid4())\<close> and \<open>now\<close> the reading of
  \<open>time.time()\<close>. The detector is built with the default sample rate 16000.\<close>

definition StreamState_init ::
  "numerics \<Rightarrow> string \<Rightarrow> real \<Rightarrow> string \<Rightarrow> vad_config option \<Rightarrow> StreamState" where
  "StreamState_init fp uuid now sid cfg0 =
     (let cfg = (case cfg0 of None \<Rightarrow> empty_vad_config | Some c \<Rightarrow> c) in
      \<lparr> stream_id = sid,
        session_id = uuid,
        vad = VADProcessor_init fp
                (get_default (cfg_threshold cfg) (1 / 100))
                (get_default (cfg_speech_pad_ms cfg) 300)
                (get_default (cfg_min_speech_duration_ms cfg) 100)
                (get_default (cfg_min_silence_duration_ms cfg) 500)
                16000
                (get_default (cfg_max_silence_duration_ms cfg) 10000),
        audio_buffer = [],
        stream_is_speech = False,
        last_update = now,
        intermediate_transcript = [],
        final_transcript = [],
        completed_utterances = [],
        is_active = True,
        speech_duration_seconds = 0,
        total_audio_duration_seconds = 0,
        utterance_count = 0,
        last_utterance_time = None,
        created_at = now,
        last_utterance_ended_at = None \<rparr>)"

definition update_last_active :: "real \<Rightarrow> StreamState \<Rightarrow> StreamState" where
  "update_last_active now s = s \<lparr> last_update := now \<rparr>"

datatype py_error = ZeroDivisionError | KeyError

text \<open>\<open>StreamState.add_audio\<close>. The division by a zero sample rate raises after the
  activity timestamp has been written, so the session is returned in both cases.\<close>

definition add_audio ::
  "numerics \<Rightarrow> real \<Rightarrow> StreamState \<Rightarrow> real list \<Rightarrow> int
     \<Rightarrow> StreamState \<times> (py_error + bool \<times> bool \<times> string)" where
  "add_audio fp now s0 audio_chunk rate =
     (let s1 = update_last_active now s0 in
      if rate = 0 then (s1, Inl ZeroDivisionError)
      else
        (let chunk_duration = real (length audio_chunk) / real_of_int rate;
             s2 = s1 \<lparr> total_audio_duration_seconds := total_audio_duration_seconds s1 + chunk_duration \<rparr>;
             (v', sp, utterance_end) = process fp (vad s2) audio_chunk;
             s3 = s2 \<lparr> vad := v', stream_is_speech := sp \<rparr>;
             s4 = (if sp
                   then s3 \<lparr> audio_buffer := audio_buffer s3 @ [audio_chunk],
                            speech_duration_seconds := speech_duration_seconds s3 + chunk_duration \<rparr>
                   else s3);
             s5 = (if utterance_end
                   then s4 \<lparr> utterance_count := utterance_count s4 + 1,
                            last_utterance_time := Some now,
                            last_utterance_ended_at := Some now \<rparr>
                   else s4)
         in (s5, Inr (sp, utterance_end, intermediate_transcript s5))))"

definition get_audio_buffer :: "StreamState \<Rightarrow> real list" where
  "get_audio_buffer s = concat (audio_buffer s)"

definition clear_audio_buffer :: "StreamState \<Rightarrow> StreamState" where
  "clear_audio_buffer s = s \<lparr> audio_buffer := [] \<rparr>"

text \<open>\<open>StreamState.add_completed_utterance\<close>: \<open>if transcript and transcript.strip()\<close>.\<close>

definition add_completed_utterance :: "StreamState \<Rightarrow> string \<Rightarrow> StreamState" where
  "add_completed_utterance s transcript =
     (if transcript \<noteq> [] \<and> py_strip transcript \<noteq> []
      then s \<lparr> completed_utterances := completed_utterances s @ [transcript],
               final_transcript := transcript \<rparr>
      else s)"

text \<open>\<open>StreamState.reset\<close>.\<close>

definition reset :: "real \<Rightarrow> StreamState \<Rightarrow> StreamState" where
  "reset now s =
     update_last_active now
       (s \<lparr> vad := VADProcessor_reset (vad s),
            audio_buffer := [],
            stream_is_speech := False,
            intermediate_transcript := [],
            final_transcript := [] \<rparr>)"

section \<open>The session registry (class ASRService)\<close>

text \<open>The registry is the dictionary \<open>streams\<close>; the model and its preprocessor are the
  external transcription capability, a parameter \<open>transcribe\<close> that returns the text or
  the message of the exception it raised. Calls are modelled one at a time, as the lock
  serialises them.\<close>

record ASRService =
  session_timeout_sec :: int
  streams :: "string \<rightharpoonup> StreamState"

text \<open>\<open>ASRService.__init__\<close>: no session yet.\<close>

definition ASRService_init :: "int \<Rightarrow> ASRService" where
  "ASRService_init timeout = \<lparr> session_timeout_sec = timeout, streams = Map.empty \<rparr>"

text \<open>\<open>create_stream\<close>: \<open>uuid1\<close> is drawn for a missing stream id, \<open>uuid2\<close> for the
  session id of a new session.\<close>

definition create_stream ::
  "numerics \<Rightarrow> string \<Rightarrow> string \<Rightarrow> real \<Rightarrow> ASRService \<Rightarrow> string option
     \<Rightarrow> ASRService \<times> string" where
  "create_stream fp uuid1 uuid2 now svc sid0 =
     (let sid = (case sid0 of None \<Rightarrow> uuid1 | Some x \<Rightarrow> x) in
      case streams svc sid of
        Some st \<Rightarrow> (svc \<lparr> streams := (streams svc)(sid \<mapsto> reset now st) \<rparr>, sid)
      | None \<Rightarrow>
          (svc \<lparr> streams := (streams svc)(sid \<mapsto> StreamState_init fp uuid2 now sid None) \<rparr>, sid))"

definition delete_stream :: "ASRService \<Rightarrow> string \<Rightarrow> ASRService \<times> bool" where
  "delete_stream svc sid =
     (if sid \<in> dom (streams svc) then (svc \<lparr> streams := (streams svc)(sid := None) \<rparr>, True)
      else (svc, False))"

definition reset_stream :: "real \<Rightarrow> ASRService \<Rightarrow> string \<Rightarrow> ASRService \<times> bool" where
  "reset_stream now svc sid =
     (case streams svc sid of
        Some st \<Rightarrow> (svc \<lparr> streams := (streams svc)(sid \<mapsto> reset now st) \<rparr>, True)
      | None \<Rightarrow> (svc, False))"

text \<open>\<open>np.frombuffer(audio_bytes, dtype=np.int16).astype(np.float32) / 32768.0\<close>: a buffer
  whose size is not a multiple of two raises ValueError; otherwise each pair of bytes is
  one signed sample, low byte first (exactly representable after the division).\<close>

type_synonym byte = "8 word"

definition int16_le :: "byte \<Rightarrow> byte \<Rightarrow> int" where
  "int16_le lo hi = (let u = uint lo + 256 * uint hi in if 32768 \<le> u then u - 65536 else u)"

fun int16_pairs :: "byte list \<Rightarrow> int list" where
  "int16_pairs (lo # hi # rest) = int16_le lo hi # int16_pairs rest"
| "int16_pairs _ = []"

definition frombuffer_error :: string where
  "frombuffer_error = ''buffer size must be a multiple of element size''"

definition frombuffer_int16 :: "byte list \<Rightarrow> string + real list" where
  "frombuffer_int16 audio_bytes =
     (if length audio_bytes mod 2 \<noteq> 0 then Inl frombuffer_error
      else Inr (map (\<lambda>k. real_of_int k / 32768) (int16_pairs audio_bytes)))"

text \<open>A transcription capability that recognises no words, for concrete runs.\<close>

definition transcribe_nothing :: "real list \<Rightarrow> string + string" where
  "transcribe_nothing buf = Inr []"

text \<open>The dictionary that \<open>process_audio\<close> returns; \<open>error\<close> and \<open>all_utterances\<close>
  are the keys that are not always present.\<close>

record audio_result =
  res_stream_id :: string
  res_error :: "string option"
  res_is_speech :: bool
  res_utterance_end :: bool
  res_transcript :: string
  res_is_final :: bool
  res_all_utterances :: "string list option"

text \<open>\<open>ASRService.process_audio\<close>. The result is the registry after the call and either
  the exception that escaped or the returned dictionary.\<close>

definition process_audio ::
  "numerics \<Rightarrow> (real list \<Rightarrow> string + string) \<Rightarrow> string \<Rightarrow> real \<Rightarrow> ASRService \<Rightarrow> string
     \<Rightarrow> byte list \<Rightarrow> int \<Rightarrow> ASRService \<times> (py_error + audio_result)" where
  "process_audio fp transcribe uuid now svc0 sid audio_bytes rate =
     (let svc1 = (if sid \<notin> dom (streams svc0)
                  then fst (create_stream fp uuid uuid now svc0 (Some sid)) else svc0)
      in
      case streams svc1 sid of
        None \<Rightarrow> (svc1, Inl KeyError)
      | Some stream0 \<Rightarrow>
        (case frombuffer_int16 audio_bytes of
           Inl e \<Rightarrow>
             (svc1, Inr \<lparr> res_stream_id = sid,
                          res_error = Some (''Invalid audio data: '' @ e),
                          res_is_speech = False,
                          res_utterance_end = False,
                          res_transcript = [],
                          res_is_final = False,
                          res_all_utterances = None \<rparr>)
         | Inr audio_np \<Rightarrow>
             (case add_audio fp now stream0 audio_np rate of
                (stream1, Inl err) \<Rightarrow> (svc1 \<lparr> streams := (streams svc1)(sid \<mapsto> stream1) \<rparr>, Inl err)
              | (stream1, Inr (sp, utterance_end, current_transcript)) \<Rightarrow>
                  (let buf = get_audio_buffer stream1 in
                   if length buf > 0 then
                     (case transcribe buf of
                        Inl e \<Rightarrow>
                          (svc1 \<lparr> streams := (streams svc1)(sid \<mapsto> stream1) \<rparr>,
                           Inr \<lparr> res_stream_id = sid,
                                 res_error = Some (''ASR processing error: '' @ e),
                                 res_is_speech = sp,
                                 res_utterance_end = utterance_end,
                                 res_transcript = intermediate_transcript stream1,
                                 res_is_final = False,
                                 res_all_utterances = None \<rparr>)
                      | Inr transcript \<Rightarrow>
                          (let stream2 =
                                 (if utterance_end
                                  then clear_audio_buffer
                                         (if py_strip transcript \<noteq> []
                                          then add_completed_utterance stream1 transcript
                                          else stream1)
                                  else stream1 \<lparr> intermediate_transcript := transcript \<rparr>)
                           in (svc1 \<lparr> streams := (streams svc1)(sid \<mapsto> stream2) \<rparr>,
                               Inr \<lparr> res_stream_id = sid,
                                     res_error = None,
                                     res_is_speech = sp,
                                     res_utterance_end = utterance_end,
                                     res_transcript = (if utterance_end then final_transcript stream2
                                                       else intermediate_transcript stream2),
                                     res_is_final = utterance_end,
                                     res_all_utterances = Some (completed_utterances stream2) \<rparr>)))
                   else
                     (svc1 \<lparr> streams := (streams svc1)(sid \<mapsto> stream1) \<rparr>,
                      Inr \<lparr> res_stream_id = sid,
                            res_error = None,
                            res_is_speech = sp,
                            res_utterance_end = utterance_end,
                            res_transcript = (if utterance_end then final_transcript stream1
                                              else intermediate_transcript stream1),
                            res_is_final = utterance_end,
                            res_all_utterances = Some (completed_utterances stream1) \<rparr>)))))"

section \<open>The conversation orchestrator (src/agents/agent.py, class VoiceAgent)\<close>

subsection \<open>Sentence segmentation\<close>

text \<open>\<open>re.split(r'(?<=[.!?])\s+', text)\<close>. A separator is a maximal run of whitespace
  that starts right after one of the three terminal characters; the text is cut at every
  separator, scanning from the left, and the pieces between the cuts are returned (the
  last one possibly empty). \<open>re_split after_terminal in_separator piece rest\<close> carries
  whether the previous character was terminal, whether a separator is being consumed, and
  the current piece in reverse.\<close>

definition is_terminal :: "char \<Rightarrow> bool" where
  "is_terminal c = (c = CHR ''.'' \<or> c = CHR ''!'' \<or> c = CHR ''?'')"

fun re_split :: "bool \<Rightarrow> bool \<Rightarrow> string \<Rightarrow> string \<Rightarrow> string list" where
  "re_split after_terminal in_separator piece [] = [rev piece]"
| "re_split after_terminal in_separator piece (c # cs) =
     (if py_isspace c \<and> in_separator then re_split False True piece cs
      else if py_isspace c \<and> after_terminal then rev piece # re_split False True [] cs
      else re_split (is_terminal c) False (c # piece) cs)"

definition split_into_sentences :: "string \<Rightarrow> string list" where
  "split_into_sentences text = re_split False False [] text"

text \<open>\<open>sep.join(parts)\<close>.\<close>

fun py_join :: "string \<Rightarrow> string list \<Rightarrow> string" where
  "py_join sep [] = []"
| "py_join sep [x] = x"
| "py_join sep (x # y # ys) = x @ sep @ py_join sep (y # ys)"

subsection \<open>Response handling: generation pipelined with synthesis\<close>

text \<open>The loop of \<open>_process_with_llm\<close> over the fragments that the generation stream
  yields. \<open>synthesized\<close> records the text of every call of \<open>tts_client.synthesize\<close>, in
  order. The optional notification hooks are left unset, as the constructor leaves them.\<close>

record response_state =
  full_response :: string
  buffer :: string
  synthesized :: "string list"

definition response_start :: response_state where
  "response_start = \<lparr> full_response = [], buffer = [], synthesized = [] \<rparr>"

definition on_fragment :: "response_state \<Rightarrow> string \<Rightarrow> response_state" where
  "on_fragment r chunk =
     (let full = full_response r @ chunk;
          buf = buffer r @ chunk;
          sentences = split_into_sentences buf
      in if length sentences > 1
         then \<lparr> full_response = full,
                buffer = last sentences,
                synthesized = synthesized r @ [py_join '' '' (butlast sentences)] \<rparr>
         else \<lparr> full_response = full, buffer = buf, synthesized = synthesized r \<rparr>)"

definition stream_fragments :: "string list \<Rightarrow> response_state" where
  "stream_fragments chunks = foldl on_fragment response_start chunks"

text \<open>After the stream: \<open>if buffer:\<close> synthesize the remaining text.\<close>

definition end_of_stream :: "response_state \<Rightarrow> response_state" where
  "end_of_stream r =
     (if buffer r \<noteq> [] then r \<lparr> synthesized := synthesized r @ [buffer r] \<rparr> else r)"

text \<open>\<open>str.lower()\<close> on the code points below 256, and \<open>phrase in text\<close>.\<close>

definition py_lower_char :: "char \<Rightarrow> char" where
  "py_lower_char c =
     (let n = (of_char c :: nat)
      in if (65 \<le> n \<and> n \<le> 90) \<or> (192 \<le> n \<and> n \<le> 222 \<and> n \<noteq> 215)
         then char_of (n + 32) else c)"

definition py_lower :: "string \<Rightarrow> string" where
  "py_lower s = map py_lower_char s"

fun contains :: "string \<Rightarrow> string \<Rightarrow> bool" where
  "contains phrase [] = (phrase = [])"
| "contains phrase (c # cs) = (take (length phrase) (c # cs) = phrase \<or> contains phrase cs)"

definition has_closing_phrase :: "string \<Rightarrow> bool" where
  "has_closing_phrase full =
     (contains ''thank you for your order'' (py_lower full) \<or>
      contains ''your order is confirmed'' (py_lower full) \<or>
      contains ''is there anything else you need'' (py_lower full) \<or>
      contains ''goodbye'' (py_lower full))"

subsection \<open>Agent state, completion and order extraction\<close>

text \<open>An extracted order is a JSON object and the extraction settings are a dictionary;
  both are association lists, \<open>{}\<close> being the empty list. Of the three clients the agent state keeps what its own code reads:
  the transport's \<open>is_connected\<close> and \<open>last_audio_sent_time\<close>, and the generation
  client's \<open>session_id\<close>.\<close>

type_synonym order_data = "(string \<times> string) list"

record VoiceAgent =
  agent_id :: string
  extraction_config :: "(string \<times> string) list"
  is_running :: bool
  is_speaking :: bool
  session_started :: bool
  silent_audio_chunk :: "byte list"
  conversation_finished :: bool
  extracted_order :: "order_data option"
  stop_event :: bool
  asr_is_connected :: bool
  asr_last_audio_sent_time :: real
  llm_session_id :: "string option"

text \<open>\<open>VoiceAgent.__init__\<close>: \<open>extraction_config or {}\<close>.\<close>

definition VoiceAgent_init :: "string \<Rightarrow> (string \<times> string) list option \<Rightarrow> VoiceAgent" where
  "VoiceAgent_init aid cfg =
     \<lparr> agent_id = aid,
       extraction_config = (case cfg of None \<Rightarrow> [] | Some c \<Rightarrow> c),
       is_running = False,
       is_speaking = False,
       session_started = False,
       silent_audio_chunk = replicate 3200 0,
       conversation_finished = False,
       extracted_order = None,
       stop_event = False,
       asr_is_connected = False,
       asr_last_audio_sent_time = 0,
       llm_session_id = None \<rparr>"

text \<open>\<open>VoiceAgent.start\<close>. The outcomes of the four external steps are parameters: whether
  the transport connected, the session id that the generation service returned (if the request
  succeeded), whether a synthesis session and an audio stream were obtained. A failed step
  disconnects the transport and returns False.\<close>

definition start ::
  "bool \<Rightarrow> real \<Rightarrow> string option \<Rightarrow> bool \<Rightarrow> bool \<Rightarrow> VoiceAgent \<Rightarrow> VoiceAgent \<times> bool" where
  "start connect_ok now llm_created tts_created stream_started a0 =
     (if \<not> connect_ok then (a0 \<lparr> asr_is_connected := False \<rparr>, False)
      else
        (let a1 = a0 \<lparr> asr_is_connected := True, asr_last_audio_sent_time := now \<rparr>;
             a2 = (case llm_created of None \<Rightarrow> a1 | Some sid \<Rightarrow> a1 \<lparr> llm_session_id := Some sid \<rparr>);
             llm_session = (case llm_created of None \<Rightarrow> [] | Some sid \<Rightarrow> sid)
         in if llm_session = [] then (a2 \<lparr> asr_is_connected := False \<rparr>, False)
            else if \<not> tts_created then (a2 \<lparr> asr_is_connected := False \<rparr>, False)
            else if \<not> stream_started then (a2 \<lparr> asr_is_connected := False \<rparr>, False)
            else (a2 \<lparr> is_running := True, session_started := True,
                       conversation_finished := False, extracted_order := None \<rparr>, True)))"

text \<open>Python's truth value of an optional string: None and the empty string are false.\<close>

definition falsy :: "string option \<Rightarrow> bool" where
  "falsy x = (x = None \<or> x = Some [])"

text \<open>\<open>LLMClient.extract_order\<close>: \<open>http\<close> is the decoded reply of the extraction
  request, None when the request raised.\<close>

definition llm_extract_order :: "order_data option \<Rightarrow> string option \<Rightarrow> string option \<Rightarrow> order_data" where
  "llm_extract_order http sid api_key =
     (if falsy sid then []
      else if falsy api_key then []
      else (case http of None \<Rightarrow> [] | Some result \<Rightarrow> result))"

text \<open>\<open>VoiceAgent.extract_order\<close>.\<close>

definition extract_order :: "order_data option \<Rightarrow> VoiceAgent \<Rightarrow> VoiceAgent" where
  "extract_order http a =
     (if extraction_config a = [] \<or> falsy (map_of (extraction_config a) ''api_key'') then a
      else a \<lparr> extracted_order :=
                 Some (llm_extract_order http (llm_session_id a)
                         (map_of (extraction_config a) ''api_key'')) \<rparr>)"

text \<open>\<open>VoiceAgent.finish_conversation\<close>.\<close>

definition finish_conversation :: "order_data option \<Rightarrow> VoiceAgent \<Rightarrow> VoiceAgent" where
  "finish_conversation http a =
     (if \<not> is_running a then a
      else extract_order http (a \<lparr> conversation_finished := True \<rparr>))"

text \<open>\<open>VoiceAgent.stop\<close>: the transport, if connected, ends disconnected.\<close>

definition stop :: "order_data option \<Rightarrow> VoiceAgent \<Rightarrow> VoiceAgent" where
  "stop http a0 =
     (let a1 = a0 \<lparr> stop_event := True \<rparr>;
          a2 = (if asr_is_connected a1 then a1 \<lparr> asr_is_connected := False \<rparr> else a1);
          a3 = a2 \<lparr> is_running := False \<rparr>
      in if conversation_finished a3 \<and> extracted_order a3 = None
         then extract_order http a3 else a3)"

text \<open>\<open>VoiceAgent._process_with_llm\<close> as one response from start to end: the texts handed
  to synthesis and the agent state afterwards.\<close>

definition process_with_llm ::
  "order_data option \<Rightarrow> string list \<Rightarrow> VoiceAgent \<Rightarrow> VoiceAgent \<times> string list" where
  "process_with_llm http chunks a0 =
     (let a1 = a0 \<lparr> is_speaking := True \<rparr>;
          r = end_of_stream (stream_fragments chunks);
          a2 = a1 \<lparr> is_speaking := False \<rparr>
      in ((if has_closing_phrase (full_response r) then finish_conversation http a2 else a2),
          synthesized r))"

text \<open>The operations on the order payload, each with the reply of the extraction request
  it would make.\<close>

datatype operation =
    Finish_conversation "order_data option"
  | Respond "string list" "order_data option"
  | Stop "order_data option"

fun apply_operation :: "VoiceAgent \<Rightarrow> operation \<Rightarrow> VoiceAgent" where
  "apply_operation a (Finish_conversation http) = finish_conversation http a"
| "apply_operation a (Respond chunks http) = fst (process_with_llm http chunks a)"
| "apply_operation a (Stop http) = stop http a"

definition run_operations :: "VoiceAgent \<Rightarrow> operation list \<Rightarrow> VoiceAgent" where
  "run_operations a ops = foldl apply_operation a ops"

text \<open>An agent with an extraction key after a successful start, for concrete runs.\<close>

definition running_agent :: VoiceAgent where
  "running_agent =
     fst (start True 0 (Some ''session-1'') True True
            (VoiceAgent_init ''agent-1'' (Some [(''api_key'', ''key'')])))"

subsection \<open>The concurrent loops\<close>

text \<open>
  The loops are coroutines of one event loop, so the code between two suspension points runs
  without interruption; each such piece that reads the speaking flag is one action below, and
  an execution is a sequence of actions in any order. The events are what the claims
  observe: a binary audio frame handed to the transport by \<open>send_audio_chunk\<close> (called by
  the forwarding loop and by the keepalive loop only), and a transcript handed to response
  handling.
\<close>

datatype sender = Forwarding_loop | Keepalive_loop

datatype event = Audio_frame sender "byte list" | Dispatched string

record message =
  msg_type :: string
  msg_is_final :: bool
  msg_transcript :: string

text \<open>\<open>ASRClient.send_audio_chunk\<close>; \<open>ok\<close> tells whether \<open>websocket.send\<close> returned.
  The frame is recorded as soon as it is handed over.\<close>

definition send_audio_chunk ::
  "sender \<Rightarrow> bool \<Rightarrow> real \<Rightarrow> byte list \<Rightarrow> VoiceAgent \<Rightarrow> VoiceAgent \<times> event list" where
  "send_audio_chunk who ok now audio_chunk a =
     (if \<not> asr_is_connected a then (a, [])
      else if ok then (a \<lparr> asr_last_audio_sent_time := now \<rparr>, [Audio_frame who audio_chunk])
      else (a \<lparr> asr_is_connected := False \<rparr>, [Audio_frame who audio_chunk]))"

text \<open>\<open>process_audio_stream\<close>: the first chunk fixes the silence template; the end of the
  loop body forwards the chunk.\<close>

definition set_silence_template :: "byte list \<Rightarrow> VoiceAgent \<Rightarrow> VoiceAgent" where
  "set_silence_template audio_chunk a = a \<lparr> silent_audio_chunk := replicate (length audio_chunk) 0 \<rparr>"

definition forward_chunk ::
  "bool \<Rightarrow> real \<Rightarrow> byte list \<Rightarrow> VoiceAgent \<Rightarrow> VoiceAgent \<times> event list" where
  "forward_chunk ok now audio_chunk a =
     (if \<not> is_speaking a then send_audio_chunk Forwarding_loop ok now audio_chunk a else (a, []))"

text \<open>One round of \<open>_keepalive_loop\<close>.\<close>

definition keepalive ::
  "bool \<Rightarrow> real \<Rightarrow> VoiceAgent \<Rightarrow> VoiceAgent \<times> event list" where
  "keepalive ok now a =
     (if asr_is_connected a then
        (if now - asr_last_audio_sent_time a > 1 \<or> is_speaking a
         then send_audio_chunk Keepalive_loop ok now (silent_audio_chunk a) a
         else (a, []))
      else (a, []))"

text \<open>\<open>_handle_transcription\<close> and the part of \<open>_check_transcriptions\<close> that follows the
  receipt of a message (None when nothing arrived in time).\<close>

definition handle_transcription :: "message \<Rightarrow> event list" where
  "handle_transcription m =
     (if msg_type m = ''transcription'' then
        (if py_strip (msg_transcript m) = [] then []
         else if msg_is_final m then [Dispatched (msg_transcript m)] else [])
      else [])"

definition check_transcription :: "message option \<Rightarrow> VoiceAgent \<Rightarrow> VoiceAgent \<times> event list" where
  "check_transcription msg a =
     (case msg of
        None \<Rightarrow> (a, [])
      | Some m \<Rightarrow> if \<not> is_speaking a then (a, handle_transcription m) else (a, []))"

datatype action =
    Started bool real "string option" bool bool
  | First_chunk "byte list"
  | Forward bool real "byte list"
  | Keepalive bool real
  | Received "message option"
  | Response_begins
  | Response_ends
  | Connection bool

fun act :: "action \<Rightarrow> VoiceAgent \<Rightarrow> VoiceAgent \<times> event list" where
  "act (Started up now llm tts str) a = (fst (start up now llm tts str a), [])"
| "act (First_chunk c) a = (set_silence_template c a, [])"
| "act (Forward ok now c) a = forward_chunk ok now c a"
| "act (Keepalive ok now) a = keepalive ok now a"
| "act (Received msg) a = check_transcription msg a"
| "act Response_begins a = (a \<lparr> is_speaking := True \<rparr>, [])"
| "act Response_ends a = (a \<lparr> is_speaking := False \<rparr>, [])"
| "act (Connection up) a = (a \<lparr> asr_is_connected := up \<rparr>, [])"

text \<open>The events of an execution, each with the agent state in which the action that
  produced it ran.\<close>

fun observe :: "VoiceAgent \<Rightarrow> action list \<Rightarrow> (VoiceAgent \<times> event) list" where
  "observe a [] = []"
| "observe a (x # xs) =
     (let (a', evs) = act x a in map (\<lambda>e. (a, e)) evs @ observe a' xs)"

text \<open>The silence template holds zero bytes only.\<close>

definition template_silent :: "VoiceAgent \<Rightarrow> bool" where
  "template_silent a = list_all (\<lambda>b. b = 0) (silent_audio_chunk a)"

section \<open>Properties of the detector\<close>

lemma all_zero_not_speech: "all_zero c \<Longrightarrow> \<not> current_is_speech fp v c"
  by (simp add: current_is_speech_def)

lemma all_zero_replicate: "all_zero (replicate n 0)"
  by (simp add: all_zero_def list_all_iff)

lemma not_all_zero_replicate: "0 < n \<Longrightarrow> x \<noteq> 0 \<Longrightarrow> \<not> all_zero (replicate n x)"
  by (simp add: all_zero_def list_all_iff)

lemma energy_replicate: "0 < n \<Longrightarrow> energy (replicate n x) = \<bar>x\<bar>"
  by (simp add: energy_def sum_list_replicate)

lemma unrounded_fields:
  "mean_abs unrounded = energy" "above unrounded = exceeds"
  "wide_quotient unrounded = truncated_quotient"
  by (simp_all add: unrounded_def)

text \<open>
  \<^bold>\<open>C1\<close>, as stated: with the four parameters of the claim, one chunk of 1600 samples whose
  mean absolute energy exceeds the threshold returns \<open>is_speech = True\<close>. This fails for a
  negative threshold and a chunk of zeros: the energy 0 exceeds the threshold \<open>-1\<close>, but
  the all-zero test classifies the chunk as silence and the call returns
  \<open>is_speech = False\<close>.
\<close>

theorem vad_activation_counterexample:
  "length (replicate 1600 (0::real)) = 1600
   \<and> above unrounded (mean_abs unrounded (replicate 1600 0)) (- 1)
   \<and> process_all unrounded (VADProcessor_init unrounded (- 1) 300 100 500 16000 10000)
        [replicate 1600 0] = [(False, False)]"
  using all_zero_replicate [of 1600]
  by (simp add: unrounded_fields exceeds_def energy_replicate process_def Let_def
      update_energy_stats_def VADProcessor_init_def current_is_speech_def)

text \<open>
  \<^bold>\<open>C1\<close>, amended. A detector built with sample rate 16000, 100 ms minimum speech, 300 ms
  padding, 500 ms minimum silence and the default 10000 ms failsafe, with any threshold,
  starts fresh. One chunk of 1600 samples that is not all-zero and whose energy exceeds the
  threshold returns \<open>is_speech = True\<close> on that call. Of the 1600-sample silence chunks
  that follow (all-zero, or with an energy that does not exceed the threshold), the first
  four return \<open>utterance_end = False\<close> (in particular the first three, 4800 samples) and
  the fifth (8000 samples) returns \<open>utterance_end = True\<close>.
\<close>

theorem vad_activation_and_end_timing:
  assumes speech: "length sp = 1600" "\<not> all_zero sp" "above fp (mean_abs fp sp) thr"
    and silence: "\<forall>c \<in> set [s1, s2, s3, s4, s5].
                    length c = 1600 \<and> (all_zero c \<or> \<not> above fp (mean_abs fp c) thr)"
  shows "process_all fp (VADProcessor_init fp thr 300 100 500 16000 10000) [sp, s1, s2, s3, s4, s5]
     = [(True, False), (True, False), (True, False), (True, False), (True, False), (False, True)]"
proof -
  have loud: "\<And>v. threshold v = thr \<Longrightarrow> current_is_speech fp v sp"
    using speech by (simp add: current_is_speech_def)
  have quiet: "\<And>v c. threshold v = thr \<Longrightarrow> c \<in> set [s1, s2, s3, s4, s5]
                 \<Longrightarrow> \<not> current_is_speech fp v c"
    using silence by (auto simp: current_is_speech_def)
  have len: "length s1 = 1600" "length s2 = 1600" "length s3 = 1600" "length s4 = 1600"
    "length s5 = 1600"
    using silence by simp_all
  show ?thesis
    using speech(1) len
    by (simp add: process_def Let_def end_utterance_def update_energy_stats_def
        VADProcessor_init_def ms_to_samples_def truncated_quotient_def loud quiet)
qed

theorem vad_activation_and_end_timing_witness:
  "process_all unrounded (VADProcessor_init unrounded (1 / 100) 300 100 500 16000 10000)
     [replicate 1600 (1 / 2), replicate 1600 0, replicate 1600 0, replicate 1600 0,
      replicate 1600 0, replicate 1600 0]
   = [(True, False), (True, False), (True, False), (True, False), (True, False), (False, True)]"
proof -
  have a: "length (replicate 1600 (1 / 2 :: real)) = 1600" by simp
  have b: "\<not> all_zero (replicate 1600 (1 / 2))" by (simp add: not_all_zero_replicate)
  have c: "above unrounded (mean_abs unrounded (replicate 1600 (1 / 2))) (1 / 100)"
    by (simp add: unrounded_fields exceeds_def energy_replicate)
  have d: "\<forall>c \<in> set [replicate 1600 0, replicate 1600 0, replicate 1600 0, replicate 1600 0,
                     replicate 1600 (0::real)].
             length c = 1600 \<and> (all_zero c \<or> \<not> above unrounded (mean_abs unrounded c) (1 / 100))"
    by (simp add: all_zero_replicate)
  show ?thesis
    by (rule vad_activation_and_end_timing [OF a b c d])
qed

text \<open>
  \<^bold>\<open>C3\<close>. In every configuration and every state in which \<open>is_speech\<close> holds, a chunk
  classified as silence that brings the silence counter to the failsafe limit
  \<open>max_silence_samples\<close> makes the call return \<open>utterance_end = True\<close>, whatever the
  padding counter and the minimum-silence limit are.
\<close>

theorem failsafe_forces_utterance_end:
  assumes "is_speech v" and "\<not> current_is_speech fp v c"
    and "max_silence_samples v \<le> silence_count v + int (length c)"
  shows "snd (snd (process fp v c))"
  using assms
  by (auto simp: process_def Let_def end_utterance_def update_energy_stats_def)

text \<open>The witness is a state in which the padding condition is far from met: the padding
  limit is 4800000 samples, the failsafe limit 16000.\<close>

theorem failsafe_forces_utterance_end_witness:
  "padding_count ((VADProcessor_init unrounded (1 / 100) 300000 100 500 16000 1000) \<lparr> is_speech := True \<rparr>)
       + int (length (replicate 16000 (0::real)))
     < speech_pad_samples ((VADProcessor_init unrounded (1 / 100) 300000 100 500 16000 1000) \<lparr> is_speech := True \<rparr>)
   \<and> snd (snd (process unrounded
                  ((VADProcessor_init unrounded (1 / 100) 300000 100 500 16000 1000) \<lparr> is_speech := True \<rparr>)
                  (replicate 16000 0)))"
proof -
  let ?v = "(VADProcessor_init unrounded (1 / 100) 300000 100 500 16000 1000) \<lparr> is_speech := True \<rparr>"
  have a: "is_speech ?v" by simp
  have b: "\<not> current_is_speech unrounded ?v (replicate 16000 0)"
    by (rule all_zero_not_speech) (rule all_zero_replicate)
  have c: "max_silence_samples ?v \<le> silence_count ?v + int (length (replicate 16000 (0::real)))"
    by (simp add: VADProcessor_init_def ms_to_samples_def truncated_quotient_def)
  have d: "padding_count ?v + int (length (replicate 16000 (0::real))) < speech_pad_samples ?v"
    by (simp add: VADProcessor_init_def ms_to_samples_def truncated_quotient_def)
  show ?thesis
    using d failsafe_forces_utterance_end [OF a b c] by simp
qed

text \<open>
  \<^bold>\<open>C9\<close>. Whenever a call returns \<open>utterance_end = True\<close>, the \<open>is_speech\<close> it returns is
  False, and in the state it leaves the speech, silence and padding counters are zero and
  the flags \<open>is_speech\<close> and \<open>in_padding\<close> are cleared.
\<close>

theorem utterance_end_leaves_fresh_state:
  assumes "process fp v c = (v', (sp, True))"
  shows "\<not> sp \<and> \<not> is_speech v' \<and> speech_count v' = 0 \<and> silence_count v' = 0
         \<and> padding_count v' = 0 \<and> \<not> in_padding v'"
  using assms
  by (auto simp: process_def Let_def end_utterance_def split: if_splits)

theorem utterance_end_leaves_fresh_state_witness:
  "process unrounded
      ((VADProcessor_init unrounded (1 / 100) 0 0 0 16000 10000) \<lparr> is_speech := True, speech_count := 3 \<rparr>) [0]
     = (end_utterance ((VADProcessor_init unrounded (1 / 100) 0 0 0 16000 10000)
          \<lparr> is_speech := True, speech_count := 3, silence_count := 1, padding_count := 1,
            in_padding := True,
            stats := fresh_debug_stats \<lparr> silence_segments := 1 \<rparr> \<rparr>), (False, True))
   \<and> speech_count (end_utterance ((VADProcessor_init unrounded (1 / 100) 0 0 0 16000 10000)
          \<lparr> is_speech := True, speech_count := 3, silence_count := 1, padding_count := 1,
            in_padding := True,
            stats := fresh_debug_stats \<lparr> silence_segments := 1 \<rparr> \<rparr>)) = 0"
proof -
  let ?v = "(VADProcessor_init unrounded (1 / 100) 0 0 0 16000 10000)
              \<lparr> is_speech := True, speech_count := 3 \<rparr>"
  let ?w = "end_utterance ((VADProcessor_init unrounded (1 / 100) 0 0 0 16000 10000)
          \<lparr> is_speech := True, speech_count := 3, silence_count := 1, padding_count := 1,
            in_padding := True,
            stats := fresh_debug_stats \<lparr> silence_segments := 1 \<rparr> \<rparr>)"
  have run: "process unrounded ?v [0] = (?w, (False, True))"
    by (simp add: process_def Let_def update_energy_stats_def VADProcessor_init_def
        ms_to_samples_def truncated_quotient_def current_is_speech_def all_zero_def
        fresh_debug_stats_def)
  show ?thesis
    using run utterance_end_leaves_fresh_state [OF run] by simp
qed

text \<open>
  \<^bold>\<open>C7\<close>, as stated: for every state and threshold an all-zero chunk leaves the silence
  counter incremented by the chunk length. This fails when the call ends the utterance:
  with the default configuration, after 1600 samples of speech and 6400 of silence, the
  next 1600 zero samples bring the counter to 8000 and the call resets it to 0.
\<close>

theorem all_zero_chunk_counterexample:
  "all_zero (replicate 1600 0)
   \<and> silence_count (fst (process unrounded
        ((VADProcessor_init unrounded (1 / 100) 300 100 500 16000 10000)
           \<lparr> is_speech := True, silence_count := 6400, speech_count := 1600,
             padding_count := 6400, in_padding := True \<rparr>)
        (replicate 1600 0)))
     \<noteq> silence_count
        ((VADProcessor_init unrounded (1 / 100) 300 100 500 16000 10000)
           \<lparr> is_speech := True, silence_count := 6400, speech_count := 1600,
             padding_count := 6400, in_padding := True \<rparr>)
       + int (length (replicate 1600 (0::real)))"
  using all_zero_replicate [of 1600]
  by (simp add: process_def Let_def update_energy_stats_def VADProcessor_init_def
      ms_to_samples_def truncated_quotient_def current_is_speech_def end_utterance_def)

text \<open>
  \<^bold>\<open>C7\<close>, amended. For every state and every threshold (zero and negative ones included) an
  all-zero chunk is classified as non-speech: the speech counter is not incremented (it
  keeps its value, or is reset to zero when the call ends the utterance), the call never
  newly sets \<open>is_speech\<close>, and the silence counter is incremented by the chunk length
  unless the call ends the utterance, which resets it to zero.
\<close>

theorem all_zero_chunk_is_silence:
  assumes "all_zero c" and "process fp v c = (v', (sp, utterance_end))"
  shows "\<not> current_is_speech fp v c
       \<and> (speech_count v' = speech_count v \<or> (utterance_end \<and> speech_count v' = 0))
       \<and> (is_speech v' \<longrightarrow> is_speech v) \<and> (sp \<longrightarrow> is_speech v)
       \<and> silence_count v' = (if utterance_end then 0 else silence_count v + int (length c))"
  using assms all_zero_not_speech [of c fp v]
  by (auto simp: process_def Let_def end_utterance_def update_energy_stats_def split: if_splits)

theorem all_zero_chunk_is_silence_witness:
  "all_zero [0, 0]
   \<and> process unrounded (VADProcessor_init unrounded (- 1) 300 100 500 16000 10000) [0, 0]
       = ((VADProcessor_init unrounded (- 1) 300 100 500 16000 10000)
             \<lparr> silence_count := 2, stats := fresh_debug_stats \<lparr> silence_segments := 1 \<rparr> \<rparr>,
          (False, False))
   \<and> \<not> current_is_speech unrounded (VADProcessor_init unrounded (- 1) 300 100 500 16000 10000) [0, 0]
   \<and> silence_count ((VADProcessor_init unrounded (- 1) 300 100 500 16000 10000)
             \<lparr> silence_count := 2, stats := fresh_debug_stats \<lparr> silence_segments := 1 \<rparr> \<rparr>)
       = silence_count (VADProcessor_init unrounded (- 1) 300 100 500 16000 10000)
         + int (length [0::real, 0])"
proof -
  let ?v = "VADProcessor_init unrounded (- 1) 300 100 500 16000 10000"
  let ?w = "?v \<lparr> silence_count := 2, stats := fresh_debug_stats \<lparr> silence_segments := 1 \<rparr> \<rparr>"
  have a: "all_zero [0, 0]" by (simp add: all_zero_def)
  have run: "process unrounded ?v [0, 0] = (?w, (False, False))"
    by (simp add: process_def Let_def update_energy_stats_def VADProcessor_init_def
        ms_to_samples_def truncated_quotient_def current_is_speech_def all_zero_def
        fresh_debug_stats_def)
  show ?thesis
    using a run all_zero_chunk_is_silence [OF a run] by simp
qed

section \<open>Properties of sessions and of the registry\<close>

lemma dropWhile_all_iff: "(\<forall>x \<in> set (dropWhile P s). P x) \<longleftrightarrow> (\<forall>c \<in> set s. P c)"
proof
  assume a: "\<forall>x \<in> set (dropWhile P s). P x"
  have "dropWhile P s = []"
  proof (rule ccontr)
    assume n: "dropWhile P s \<noteq> []"
    then have "\<not> P (hd (dropWhile P s))" by (rule hd_dropWhile)
    moreover have "hd (dropWhile P s) \<in> set (dropWhile P s)" using n by simp
    ultimately show False using a by blast
  qed
  then show "\<forall>c \<in> set s. P c" by (simp add: dropWhile_eq_Nil_conv)
next
  assume "\<forall>c \<in> set s. P c"
  then show "\<forall>x \<in> set (dropWhile P s). P x" by (auto dest: set_dropWhileD)
qed

lemma strip_empty_iff: "py_strip s = [] \<longleftrightarrow> (\<forall>c \<in> set s. py_isspace c)"
  by (simp add: py_strip_def dropWhile_eq_Nil_conv dropWhile_all_iff)

text \<open>
  \<^bold>\<open>C6\<close>. For every session state, \<open>add_completed_utterance\<close> with a transcript that is
  empty or made of whitespace only returns the session unchanged (the history and every
  other field); a transcript with at least one non-whitespace character is appended to
  the history (and becomes the final transcript).
\<close>

theorem blank_transcripts_are_dropped:
  "add_completed_utterance s t =
     (if \<forall>c \<in> set t. py_isspace c then s
      else s \<lparr> completed_utterances := completed_utterances s @ [t], final_transcript := t \<rparr>)"
  by (auto simp: add_completed_utterance_def strip_empty_iff)

theorem blank_transcripts_are_dropped_witness:
  "add_completed_utterance (StreamState_init unrounded ''u'' 0 ''s'' None) []
     = StreamState_init unrounded ''u'' 0 ''s'' None
   \<and> add_completed_utterance (StreamState_init unrounded ''u'' 0 ''s'' None) ''   ''
     = StreamState_init unrounded ''u'' 0 ''s'' None
   \<and> completed_utterances (add_completed_utterance (StreamState_init unrounded ''u'' 0 ''s'' None) ''hi'')
     = [''hi'']"
  using blank_transcripts_are_dropped [of "StreamState_init unrounded ''u'' 0 ''s'' None" "[]"]
    blank_transcripts_are_dropped [of "StreamState_init unrounded ''u'' 0 ''s'' None" "''   ''"]
    blank_transcripts_are_dropped [of "StreamState_init unrounded ''u'' 0 ''s'' None" "''hi''"]
  by (simp add: py_isspace_def StreamState_init_def)

text \<open>
  \<^bold>\<open>C10\<close>. For every session state, \<open>reset\<close> keeps the stream id, the generated session
  id and the history of completed utterances. It clears the detector state (the flags
  \<open>is_speech\<close> and \<open>in_padding\<close>, the speech, silence and padding counters, and the
  statistics), the session's own speech flag, the audio buffer, and the intermediate and
  the final transcript.
\<close>

theorem reset_keeps_identity_and_history:
  "stream_id (reset now s) = stream_id s
   \<and> session_id (reset now s) = session_id s
   \<and> completed_utterances (reset now s) = completed_utterances s
   \<and> vad (reset now s) = VADProcessor_reset (vad s)
   \<and> audio_buffer (reset now s) = []
   \<and> intermediate_transcript (reset now s) = []
   \<and> final_transcript (reset now s) = []
   \<and> \<not> is_speech (vad (reset now s))
   \<and> \<not> in_padding (vad (reset now s))
   \<and> speech_count (vad (reset now s)) = 0
   \<and> silence_count (vad (reset now s)) = 0
   \<and> padding_count (vad (reset now s)) = 0
   \<and> stats (vad (reset now s)) = fresh_debug_stats
   \<and> \<not> stream_is_speech (reset now s)"
  by (simp add: reset_def update_last_active_def VADProcessor_reset_def)

text \<open>The witness is a session with one completed utterance that has then heard 1600
  samples of speech: its detector is in speech with a speech counter of 1600 and its
  buffer holds the chunk. After the reset the detector and the buffer are cleared and the
  utterance is still in the history.\<close>

theorem reset_keeps_identity_and_history_witness:
  "is_speech (vad (fst (add_audio unrounded 1
       (add_completed_utterance (StreamState_init unrounded ''u'' 0 ''s'' None) ''hi'')
       (replicate 1600 (1 / 2)) 16000)))
   \<and> speech_count (vad (fst (add_audio unrounded 1
       (add_completed_utterance (StreamState_init unrounded ''u'' 0 ''s'' None) ''hi'')
       (replicate 1600 (1 / 2)) 16000))) = 1600
   \<and> audio_buffer (fst (add_audio unrounded 1
       (add_completed_utterance (StreamState_init unrounded ''u'' 0 ''s'' None) ''hi'')
       (replicate 1600 (1 / 2)) 16000)) = [replicate 1600 (1 / 2)]
   \<and> final_transcript (fst (add_audio unrounded 1
       (add_completed_utterance (StreamState_init unrounded ''u'' 0 ''s'' None) ''hi'')
       (replicate 1600 (1 / 2)) 16000)) = ''hi''
   \<and> \<not> is_speech (vad (reset 5 (fst (add_audio unrounded 1
       (add_completed_utterance (StreamState_init unrounded ''u'' 0 ''s'' None) ''hi'')
       (replicate 1600 (1 / 2)) 16000))))
   \<and> speech_count (vad (reset 5 (fst (add_audio unrounded 1
       (add_completed_utterance (StreamState_init unrounded ''u'' 0 ''s'' None) ''hi'')
       (replicate 1600 (1 / 2)) 16000)))) = 0
   \<and> audio_buffer (reset 5 (fst (add_audio unrounded 1
       (add_completed_utterance (StreamState_init unrounded ''u'' 0 ''s'' None) ''hi'')
       (replicate 1600 (1 / 2)) 16000))) = []
   \<and> final_transcript (reset 5 (fst (add_audio unrounded 1
       (add_completed_utterance (StreamState_init unrounded ''u'' 0 ''s'' None) ''hi'')
       (replicate 1600 (1 / 2)) 16000))) = []
   \<and> completed_utterances (reset 5 (fst (add_audio unrounded 1
       (add_completed_utterance (StreamState_init unrounded ''u'' 0 ''s'' None) ''hi'')
       (replicate 1600 (1 / 2)) 16000))) = [''hi'']
   \<and> session_id (reset 5 (fst (add_audio unrounded 1
       (add_completed_utterance (StreamState_init unrounded ''u'' 0 ''s'' None) ''hi'')
       (replicate 1600 (1 / 2)) 16000))) = ''u''"
proof -
  let ?s = "fst (add_audio unrounded 1
       (add_completed_utterance (StreamState_init unrounded ''u'' 0 ''s'' None) ''hi'')
       (replicate 1600 (1 / 2)) 16000)"
  have loud: "\<And>v. threshold v = 1 / 100 \<Longrightarrow> current_is_speech unrounded v (replicate 1600 (1 / 2))"
    by (simp add: current_is_speech_def not_all_zero_replicate unrounded_fields exceeds_def
        energy_replicate)
  have before:
    "is_speech (vad ?s)" "speech_count (vad ?s) = 1600"
    "audio_buffer ?s = [replicate 1600 (1 / 2)]" "final_transcript ?s = ''hi''"
    "completed_utterances ?s = [''hi'']" "session_id ?s = ''u''"
    by (simp_all add: add_audio_def update_last_active_def add_completed_utterance_def
        py_strip_def py_isspace_def StreamState_init_def empty_vad_config_def get_default_def
        VADProcessor_init_def ms_to_samples_def truncated_quotient_def process_def Let_def
        update_energy_stats_def loud)
  show ?thesis
    using before reset_keeps_identity_and_history [of 5 ?s]
    by (simp add: VADProcessor_reset_def)
qed

text \<open>
  \<^bold>\<open>C5\<close>, as stated: a byte string that cannot be decoded leaves the registry unchanged.
  This fails for an id the registry does not know: the session is created before the bytes
  are decoded, so a one-byte frame sent to an empty registry leaves a session behind.
\<close>

theorem decode_error_counterexample:
  "length [1 :: byte] mod 2 \<noteq> 0
   \<and> streams (fst (process_audio unrounded transcribe_nothing ''u'' 0 (ASRService_init 300)
                     ''s'' [1] 16000)) ''s''
       \<noteq> streams (ASRService_init 300) ''s''"
  by (simp add: process_audio_def create_stream_def ASRService_init_def frombuffer_int16_def Let_def)

text \<open>
  \<^bold>\<open>C5\<close>, amended. For every call of \<open>process_audio\<close> with a byte string of odd length, the
  call returns the structured error result of the decode failure. If the id is registered,
  the registry is unchanged by the call, and with it the session's detector, buffer,
  transcripts and history; if it is not, the registry gains a freshly constructed session
  under that id and nothing else changes.
\<close>

theorem decode_error_result_and_state:
  assumes "length audio_bytes mod 2 \<noteq> 0"
  shows "process_audio fp transcribe uuid now svc sid audio_bytes rate =
     ((if sid \<in> dom (streams svc) then svc
       else svc \<lparr> streams := (streams svc)(sid \<mapsto> StreamState_init fp uuid now sid None) \<rparr>),
      Inr \<lparr> res_stream_id = sid,
            res_error = Some (''Invalid audio data: '' @ frombuffer_error),
            res_is_speech = False,
            res_utterance_end = False,
            res_transcript = [],
            res_is_final = False,
            res_all_utterances = None \<rparr>)"
proof (cases "streams svc sid")
  case None
  with assms show ?thesis
    by (simp add: process_audio_def frombuffer_int16_def create_stream_def domIff Let_def)
next
  case (Some st)
  with assms show ?thesis
    by (simp add: process_audio_def frombuffer_int16_def domI Let_def)
qed

theorem decode_error_result_and_state_witness:
  "length [1 :: byte, 2, 3] mod 2 \<noteq> 0
   \<and> fst (process_audio unrounded transcribe_nothing ''v'' 7
        (fst (create_stream unrounded ''a'' ''u'' 0 (ASRService_init 300) (Some ''s'')))
        ''s'' [1, 2, 3] 16000)
     = fst (create_stream unrounded ''a'' ''u'' 0 (ASRService_init 300) (Some ''s''))
   \<and> res_error (projr (snd (process_audio unrounded transcribe_nothing ''v'' 7
        (fst (create_stream unrounded ''a'' ''u'' 0 (ASRService_init 300) (Some ''s'')))
        ''s'' [1, 2, 3] 16000)))
     = Some (''Invalid audio data: '' @ frombuffer_error)"
proof -
  have a: "length [1 :: byte, 2, 3] mod 2 \<noteq> 0" by simp
  show ?thesis
    using a decode_error_result_and_state [OF a, of unrounded transcribe_nothing "''v''" 7
        "fst (create_stream unrounded ''a'' ''u'' 0 (ASRService_init 300) (Some ''s''))"
        "''s''" 16000]
    by (simp add: create_stream_def ASRService_init_def Let_def)
qed

section \<open>Properties of the orchestrator\<close>

text \<open>
  \<^bold>\<open>C2\<close>. Streaming the fragments \<open>"Hello world. "\<close>, \<open>"How are"\<close>, \<open>" you? Fine"\<close> makes
  exactly two synthesis calls before the end of the stream, with the texts
  \<open>"Hello world."\<close> and \<open>"How are you?"\<close>, and exactly one more at the end of the stream,
  with the text \<open>"Fine"\<close>, the piece retained in the buffer.
\<close>

theorem sentence_pipelining:
  "synthesized (stream_fragments [''Hello world. '', ''How are'', '' you? Fine''])
     = [''Hello world.'', ''How are you?'']
   \<and> buffer (stream_fragments [''Hello world. '', ''How are'', '' you? Fine'']) = ''Fine''
   \<and> synthesized (end_of_stream (stream_fragments [''Hello world. '', ''How are'', '' you? Fine'']))
     = [''Hello world.'', ''How are you?''] @ [''Fine'']
   \<and> snd (process_with_llm http [''Hello world. '', ''How are'', '' you? Fine''] a)
     = [''Hello world.'', ''How are you?'', ''Fine'']"
  by (simp add: stream_fragments_def on_fragment_def response_start_def split_into_sentences_def
      py_isspace_def is_terminal_def Let_def end_of_stream_def process_with_llm_def)

lemma goodbye_closes:
  "has_closing_phrase (full_response (end_of_stream (stream_fragments [''Goodbye''])))"
  by code_simp

lemma running_agent_fields:
  "is_running running_agent" "extraction_config running_agent = [(''api_key'', ''key'')]"
  "llm_session_id running_agent = Some ''session-1''" "extracted_order running_agent = None"
  by (simp_all add: running_agent_def start_def VoiceAgent_init_def Let_def)

text \<open>
  \<^bold>\<open>C8\<close>. The payload is to be set at most once: \<open>stop\<close> extracts only when no payload is
  stored, and the end of the audio stream finishes the conversation only if that was not
  already done. \<open>finish_conversation\<close> has no such guard, and the code fails the claim on
  a running agent with an extraction key. After a first \<open>finish_conversation\<close> has stored
  an order, a second one stores the newly extracted order in its place; a completion
  triggered by the closing phrase \<open>goodbye\<close> whose extraction request fails stores the empty
  object in its place, and a later \<open>stop\<close> does not extract again. On the same state
  \<open>stop\<close> alone keeps the stored order.
\<close>

theorem order_payload_overwritten:
  "extracted_order (run_operations running_agent
      [Finish_conversation (Some [(''item'', ''tea'')])]) = Some [(''item'', ''tea'')]
   \<and> extracted_order (run_operations running_agent
      [Finish_conversation (Some [(''item'', ''tea'')]),
       Finish_conversation (Some [(''item'', ''coffee'')])]) = Some [(''item'', ''coffee'')]
   \<and> extracted_order (run_operations running_agent
      [Finish_conversation (Some [(''item'', ''tea'')]), Respond [''Goodbye''] None]) = Some []
   \<and> extracted_order (run_operations running_agent
      [Finish_conversation (Some [(''item'', ''tea'')]), Respond [''Goodbye''] None,
       Stop (Some [(''item'', ''tea'')])]) = Some []
   \<and> extracted_order (run_operations running_agent
      [Finish_conversation (Some [(''item'', ''tea'')]),
       Stop (Some [(''item'', ''coffee'')])]) = Some [(''item'', ''tea'')]"
  by (simp add: run_operations_def finish_conversation_def extract_order_def
      llm_extract_order_def falsy_def Let_def process_with_llm_def stop_def goodbye_closes
      running_agent_fields)

lemma start_template: "silent_audio_chunk (fst (start up now llm tts str a)) = silent_audio_chunk a"
  by (simp add: start_def Let_def split: option.splits)

lemma send_template:
  "silent_audio_chunk (fst (send_audio_chunk who ok now c a)) = silent_audio_chunk a"
  by (simp add: send_audio_chunk_def)

lemma act_template: "template_silent a \<Longrightarrow> template_silent (fst (act x a))"
  by (cases x)
     (simp_all add: template_silent_def start_template send_template set_silence_template_def
        forward_chunk_def keepalive_def check_transcription_def list_all_iff split: option.splits)

lemma act_speaking:
  "is_speaking a \<Longrightarrow> e \<in> set (snd (act x a)) \<Longrightarrow> e = Audio_frame Keepalive_loop (silent_audio_chunk a)"
  by (cases x)
     (auto simp: forward_chunk_def keepalive_def check_transcription_def send_audio_chunk_def
        split: option.splits if_splits)

lemma observe_speaking:
  "template_silent a \<Longrightarrow> (s, e) \<in> set (observe a xs) \<Longrightarrow> is_speaking s \<Longrightarrow>
   e = Audio_frame Keepalive_loop (silent_audio_chunk s) \<and> template_silent s"
proof (induction xs arbitrary: a)
  case Nil
  then show ?case by simp
next
  case (Cons x xs)
  obtain a' evs where ax: "act x a = (a', evs)" by (cases "act x a")
  from Cons.prems(2) ax have "(s = a \<and> e \<in> set evs) \<or> (s, e) \<in> set (observe a' xs)"
    by auto
  then show ?case
  proof
    assume "s = a \<and> e \<in> set evs"
    with Cons.prems(3) ax act_speaking [of a e x] Cons.prems(1) show ?thesis by simp
  next
    assume later: "(s, e) \<in> set (observe a' xs)"
    have "template_silent a'" using act_template [OF Cons.prems(1), of x] ax by simp
    from Cons.IH [OF this later Cons.prems(3)] show ?thesis .
  qed
qed

lemma init_template: "template_silent (VoiceAgent_init aid cfg)"
  by (simp add: template_silent_def VoiceAgent_init_def list_all_iff)

text \<open>
  \<^bold>\<open>C4\<close>. In every execution of a newly constructed agent, whatever the order of the
  actions, an event produced while the speaking flag is true is a binary audio frame sent by
  the keepalive loop, it is the silence template, and the template holds zero bytes only.
  So while the flag is true the forwarding loop hands no chunk of the audio source to the
  transport, and the polling loop hands no received transcript to response handling.
\<close>

theorem self_speech_suppression:
  assumes "(s, e) \<in> set (observe (VoiceAgent_init aid cfg) schedule)" and "is_speaking s"
  shows "e = Audio_frame Keepalive_loop (silent_audio_chunk s)
       \<and> (\<forall>b \<in> set (silent_audio_chunk s). b = 0)
       \<and> (\<forall>c. e \<noteq> Audio_frame Forwarding_loop c)
       \<and> (\<forall>t. e \<noteq> Dispatched t)"
  using observe_speaking [OF init_template assms]
  by (auto simp: template_silent_def list_all_iff)

text \<open>The witness is an execution in which a response begins after the first chunk: the
  chunk offered and the transcript received during the response produce nothing, the
  keepalive round produces a frame of two zero bytes, and after the response the chunk is
  forwarded and the transcript dispatched.\<close>

theorem self_speech_suppression_witness:
  "map snd (observe (VoiceAgent_init ''agent-1'' None)
      [Started True 0 (Some ''session-1'') True True, First_chunk [1, 2], Response_begins,
       Forward True 1 [1, 2], Keepalive True 2,
       Received (Some \<lparr> msg_type = ''transcription'', msg_is_final = True, msg_transcript = ''hello'' \<rparr>),
       Response_ends, Forward True 3 [1, 2],
       Received (Some \<lparr> msg_type = ''transcription'', msg_is_final = True, msg_transcript = ''hello'' \<rparr>)])
     = [Audio_frame Keepalive_loop [0, 0], Audio_frame Forwarding_loop [1, 2], Dispatched ''hello'']
   \<and> is_speaking (fst (hd (observe (VoiceAgent_init ''agent-1'' None)
      [Started True 0 (Some ''session-1'') True True, First_chunk [1, 2], Response_begins,
       Forward True 1 [1, 2], Keepalive True 2,
       Received (Some \<lparr> msg_type = ''transcription'', msg_is_final = True, msg_transcript = ''hello'' \<rparr>),
       Response_ends, Forward True 3 [1, 2],
       Received (Some \<lparr> msg_type = ''transcription'', msg_is_final = True, msg_transcript = ''hello'' \<rparr>)])))
   \<and> snd (hd (observe (VoiceAgent_init ''agent-1'' None)
      [Started True 0 (Some ''session-1'') True True, First_chunk [1, 2], Response_begins,
       Forward True 1 [1, 2], Keepalive True 2,
       Received (Some \<lparr> msg_type = ''transcription'', msg_is_final = True, msg_transcript = ''hello'' \<rparr>),
       Response_ends, Forward True 3 [1, 2],
       Received (Some \<lparr> msg_type = ''transcription'', msg_is_final = True, msg_transcript = ''hello'' \<rparr>)]))
     = Audio_frame Keepalive_loop
         (silent_audio_chunk (fst (hd (observe (VoiceAgent_init ''agent-1'' None)
      [Started True 0 (Some ''session-1'') True True, First_chunk [1, 2], Response_begins,
       Forward True 1 [1, 2], Keepalive True 2,
       Received (Some \<lparr> msg_type = ''transcription'', msg_is_final = True, msg_transcript = ''hello'' \<rparr>),
       Response_ends, Forward True 3 [1, 2],
       Received (Some \<lparr> msg_type = ''transcription'', msg_is_final = True, msg_transcript = ''hello'' \<rparr>)]))))"
proof -
  let ?m = "\<lparr> msg_type = ''transcription'', msg_is_final = True, msg_transcript = ''hello'' \<rparr>"
  let ?obs = "observe (VoiceAgent_init ''agent-1'' None)
      [Started True 0 (Some ''session-1'') True True, First_chunk [1, 2], Response_begins,
       Forward True 1 [1, 2], Keepalive True 2, Received (Some ?m),
       Response_ends, Forward True 3 [1, 2], Received (Some ?m)]"
  have evs: "map snd ?obs
      = [Audio_frame Keepalive_loop [0, 0], Audio_frame Forwarding_loop [1, 2], Dispatched ''hello'']"
    by (simp add: VoiceAgent_init_def start_def set_silence_template_def forward_chunk_def
        keepalive_def check_transcription_def handle_transcription_def send_audio_chunk_def
        py_strip_def py_isspace_def Let_def)
  have sp: "is_speaking (fst (hd ?obs))"
    by (simp add: VoiceAgent_init_def start_def set_silence_template_def forward_chunk_def
        keepalive_def check_transcription_def handle_transcription_def send_audio_chunk_def
        py_strip_def py_isspace_def Let_def)
  have "?obs \<noteq> []" using evs by auto
  then have "hd ?obs \<in> set ?obs" by (rule hd_in_set)
  then have mem: "(fst (hd ?obs), snd (hd ?obs)) \<in> set ?obs" by (simp only: prod.collapse)
  from self_speech_suppression [OF mem sp]
  have frame: "snd (hd ?obs) = Audio_frame Keepalive_loop (silent_audio_chunk (fst (hd ?obs)))"
    by (rule conjunct1)
  show ?thesis by (intro conjI evs sp frame)
qed

end
